theory Spec2Isabelle
  imports Main
begin

unbundle bit_operations_syntax

section \<open>Eufy RoboVac entity: values, tables and entity state\<close>

text \<open>
  The development follows \<^verbatim>\<open>custom_components/robovac/vacuum.py\<close>. A data point
  reported by the device is a JSON scalar; \<^verbatim>\<open>dict.get\<close> yields Python's
  \<^verbatim>\<open>None\<close> for a missing key, so \<^verbatim>\<open>None\<close> is one of the values.
\<close>

datatype rawval = RNone | RBool bool | RInt int | RStr string

text \<open>
  Values produced by \<^verbatim>\<open>ast.literal_eval\<close>: scalars, lists, dicts (as their
  items, keys unique) and every other literal (float, bytes, tuple, set), kept by its text.
\<close>

datatype pyobj =
    Scalar rawval
  | PList "pyobj list"
  | PDict "(pyobj \<times> pyobj) list"
  | POther string

datatype py_error =
    TypeError | ValueError | BinasciiError | UnicodeDecodeError
  | SyntaxError | KeyError | AttributeError | OtherError string

text \<open>Python's \<^verbatim>\<open>==\<close> on scalars: \<^verbatim>\<open>bool\<close> is a subclass of \<^verbatim>\<open>int\<close>.\<close>

fun py_eq :: "rawval \<Rightarrow> rawval \<Rightarrow> bool" where
  "py_eq RNone RNone = True"
| "py_eq (RBool a) (RBool b) = (a = b)"
| "py_eq (RBool a) (RInt i) = ((if a then 1 else 0) = i)"
| "py_eq (RInt i) (RBool a) = (i = (if a then 1 else 0))"
| "py_eq (RInt i) (RInt j) = (i = j)"
| "py_eq (RStr s) (RStr t) = (s = t)"
| "py_eq _ _ = False"

text \<open>\<^verbatim>\<open>x in [a, b, ...]\<close> compares with \<^verbatim>\<open>==\<close>.\<close>

definition py_in :: "rawval \<Rightarrow> rawval list \<Rightarrow> bool" where
  "py_in x xs = list_ex (py_eq x) xs"

text \<open>Truth value of a scalar, as tested by \<^verbatim>\<open>if x:\<close>.\<close>

fun truthy :: "rawval \<Rightarrow> bool" where
  "truthy RNone = False"
| "truthy (RBool b) = b"
| "truthy (RInt i) = (i \<noteq> 0)"
| "truthy (RStr s) = (s \<noteq> [])"

text \<open>The raw snapshot \<^verbatim>\<open>self.vacuum.state\<close> and its \<^verbatim>\<open>.get(code)\<close>.\<close>

type_synonym snapshot = "string \<rightharpoonup> rawval"

definition get :: "snapshot \<Rightarrow> string \<Rightarrow> rawval" where
  "get st code = (case st code of None \<Rightarrow> RNone | Some v \<Rightarrow> v)"

subsection \<open>Feature flags\<close>

text \<open>\<^verbatim>\<open>RoboVacEntityFeature\<close> is an \<^verbatim>\<open>IntEnum\<close>; flags are combined with
  \<^verbatim>\<open>|\<close> and tested with \<^verbatim>\<open>&\<close>.\<close>

definition EDGE :: int where "EDGE = 1"
definition SMALL_ROOM :: int where "SMALL_ROOM = 2"
definition CLEANING_TIME :: int where "CLEANING_TIME = 4"
definition CLEANING_AREA :: int where "CLEANING_AREA = 8"
definition DO_NOT_DISTURB :: int where "DO_NOT_DISTURB = 16"
definition AUTO_RETURN :: int where "AUTO_RETURN = 32"
definition CONSUMABLES :: int where "CONSUMABLES = 64"
definition ROOM :: int where "ROOM = 128"
definition ZONE :: int where "ZONE = 256"
definition MAP :: int where "MAP = 512"
definition BOOST_IQ :: int where "BOOST_IQ = 1024"

text \<open>
  \<^verbatim>\<open>VacuumEntityFeature\<close> belongs to the host framework: an integer flag enumeration
  whose members are distinct bits. Its numeric values are not part of this source, so a
  combination of members is the set of the members, \<^verbatim>\<open>0\<close> is the empty set and
  \<^verbatim>\<open>features & MEMBER\<close> is membership. Its member \<^verbatim>\<open>MAP\<close> is written
  \<open>VMAP\<close>, since \<open>MAP\<close> is the member of \<^verbatim>\<open>RoboVacEntityFeature\<close>.
\<close>

datatype VacuumEntityFeature =
    BATTERY | CLEAN_SPOT | FAN_SPEED | LOCATE | VMAP | PAUSE | RETURN_HOME
  | SEND_COMMAND | START | STATE | STATUS | STOP

text \<open>The lifecycle states of the host framework.\<close>

datatype vacuum_state =
  STATE_CLEANING | STATE_DOCKED | STATE_ERROR | STATE_IDLE | STATE_RETURNING

subsection \<open>Error messages\<close>

definition ERROR_MESSAGES :: "(rawval \<times> string) list" where
  "ERROR_MESSAGES =
   [(RStr ''IP_ADDRESS'', ''IP Address not set''),
    (RInt 1, ''Error: Front bumper stuck''),
    (RInt 2, ''Error: Wheel stuck''),
    (RInt 3, ''Error: Side brush''),
    (RInt 4, ''Error: Rolling brush bar stuck''),
    (RInt 5, ''Error: Device trapped''),
    (RInt 6, ''Error: Device trapped''),
    (RInt 7, ''Error: Wheel suspended''),
    (RInt 8, ''Error: Low battery''),
    (RInt 9, ''Error: Magnetic boundary''),
    (RInt 12, ''Error: Right wall sensor''),
    (RInt 13, ''Error: Device tilted''),
    (RInt 14, ''Error: Insert dust collector''),
    (RInt 17, ''Error: Restricted area detected''),
    (RInt 18, ''Error: Laser cover stuck''),
    (RInt 19, ''Error: Laser sesor stuck''),
    (RInt 20, ''Error: Laser sensor blocked''),
    (RInt 21, ''Error: Base blocked''),
    (RStr ''S1'', ''Error: Battery''),
    (RStr ''S2'', ''Error: Wheel Module''),
    (RStr ''S3'', ''Error: Side Brush''),
    (RStr ''S4'', ''Error: Suction Fan''),
    (RStr ''S5'', ''Error: Rolling Brush''),
    (RStr ''S8'', ''Error: Path Tracking Sensor''),
    (RStr ''Wheel_stuck'', ''Error: Wheel stuck''),
    (RStr ''R_brush_stuck'', ''Error: Rolling brush stuck''),
    (RStr ''Crash_bar_stuck'', ''Error: Front bumper stuck''),
    (RStr ''sensor_dirty'', ''Error: Sensor dirty''),
    (RStr ''N_enough_pow'', ''Error: Low battery''),
    (RStr ''Stuck_5_min'', ''Error: Device trapped''),
    (RStr ''Fan_stuck'', ''Error: Fan stuck''),
    (RStr ''S_brush_stuck'', ''Error: Side brush stuck'')]"

text \<open>\<^verbatim>\<open>table.get(key, default)\<close> on a dict with scalar keys: the entry whose key
  equals \<^verbatim>\<open>key\<close>, else the default.\<close>

fun dict_get :: "(rawval \<times> string) list \<Rightarrow> rawval \<Rightarrow> rawval \<Rightarrow> rawval" where
  "dict_get [] key dflt = dflt"
| "dict_get ((k, v) # kvs) key dflt = (if py_eq k key then RStr v else dict_get kvs key dflt)"

subsection \<open>The entity\<close>

record entity =
  battery_level :: rawval
  supported_features :: "VacuumEntityFeature set"
  robovac_supported :: int
  fan_speed_list :: "string list"
  model_code :: string
  ip_address :: string
  access_token :: string
  fan_speed :: rawval
  mode :: rawval
  cleaning_area :: rawval
  cleaning_time :: rawval
  auto_return :: rawval
  do_not_disturb :: rawval
  boost_iq :: rawval
  consumables :: pyobj
  error_code :: rawval
  tuya_state :: rawval
  tuyastatus :: "snapshot option"

text \<open>\<^verbatim>\<open>type(x) is not None\<close>: the type of a value is a class object, which is
  never the object \<^verbatim>\<open>None\<close>.\<close>

definition type_is_not_None :: "rawval \<Rightarrow> bool" where
  "type_is_not_None x = True"

text \<open>The property \<^verbatim>\<open>state\<close>.\<close>

definition state :: "entity \<Rightarrow> vacuum_state" where
  "state e =
    (if tuya_state e = RNone \<or>
        (type_is_not_None (error_code e) \<and> \<not> py_in (error_code e) [RInt 0, RStr ''no_error''])
     then STATE_ERROR
     else if py_eq (tuya_state e) (RStr ''Charging'') \<or> py_eq (tuya_state e) (RStr ''completed'')
     then STATE_DOCKED
     else if py_eq (tuya_state e) (RStr ''Recharge'') then STATE_RETURNING
     else if py_eq (tuya_state e) (RStr ''Sleeping'') \<or> py_eq (tuya_state e) (RStr ''standby'')
     then STATE_IDLE
     else STATE_CLEANING)"

subsection \<open>Decoding the consumables blob\<close>

text \<open>
  \<^verbatim>\<open>ast.literal_eval(base64.b64decode(blob).decode("ascii"))["consumable"]["duration"]\<close>,
  stage by stage. The first two stages follow the Python standard library (the source
  imports \<^verbatim>\<open>StrEnum\<close>, so Python 3.11 or later); every stage can raise.
\<close>

text \<open>The value of a character in the base64 alphabet.\<close>

definition b64_value :: "char \<Rightarrow> nat option" where
  "b64_value c =
    (let n = (of_char c :: nat) in
     if 65 \<le> n \<and> n \<le> 90 then Some (n - 65)
     else if 97 \<le> n \<and> n \<le> 122 then Some (n - 71)
     else if 48 \<le> n \<and> n \<le> 57 then Some (n + 4)
     else if n = 43 then Some 62
     else if n = 47 then Some 63
     else None)"

text \<open>
  \<^verbatim>\<open>binascii.a2b_base64\<close> in its default, non-strict mode: characters outside the
  alphabet are skipped, a pad sequence that completes a quad ends the input, and a quad
  left open at the end is an error. The arguments after the input are the position in
  the quad, the bits left over, the pads seen and the bytes produced so far.
\<close>

fun a2b_base64 :: "string \<Rightarrow> nat \<Rightarrow> nat \<Rightarrow> nat \<Rightarrow> nat list \<Rightarrow> py_error + nat list" where
  "a2b_base64 [] quad_pos leftchar pads out =
    (if quad_pos \<noteq> 0 then Inl BinasciiError else Inr out)"
| "a2b_base64 (c # cs) quad_pos leftchar pads out =
    (if c = CHR ''='' then
       (if quad_pos \<ge> 2 then
          (if quad_pos + (pads + 1) \<ge> 4 then Inr out
           else a2b_base64 cs quad_pos leftchar (pads + 1) out)
        else a2b_base64 cs quad_pos leftchar pads out)
     else
       (case b64_value c of
          None \<Rightarrow> a2b_base64 cs quad_pos leftchar pads out
        | Some v \<Rightarrow>
            (if quad_pos = 0 then a2b_base64 cs 1 v 0 out
             else if quad_pos = 1 then
               a2b_base64 cs 2 (v mod 16) 0 (out @ [leftchar * 4 + v div 16])
             else if quad_pos = 2 then
               a2b_base64 cs 3 (v mod 4) 0 (out @ [leftchar * 16 + v div 4])
             else a2b_base64 cs 0 0 0 (out @ [leftchar * 64 + v]))))"

text \<open>\<^verbatim>\<open>base64.b64decode(x)\<close>: the argument must be a string, of ASCII characters.\<close>

fun b64decode :: "rawval \<Rightarrow> py_error + nat list" where
  "b64decode (RStr s) =
    (if list_ex (\<lambda>c. (of_char c :: nat) \<ge> 128) s then Inl ValueError
     else a2b_base64 s 0 0 0 [])"
| "b64decode _ = Inl TypeError"

text \<open>\<^verbatim>\<open>bytes.decode("ascii")\<close>.\<close>

definition decode_ascii :: "nat list \<Rightarrow> py_error + string" where
  "decode_ascii bs =
    (if list_ex (\<lambda>b. b \<ge> 128) bs then Inl UnicodeDecodeError
     else Inr (map char_of bs))"

text \<open>\<^verbatim>\<open>obj[key]\<close> for a string key: only a dict can be subscripted by a string.\<close>

fun getitem :: "pyobj \<Rightarrow> string \<Rightarrow> py_error + pyobj" where
  "getitem (PDict items) key =
    (case map_of items (Scalar (RStr key)) of
       None \<Rightarrow> Inl KeyError
     | Some v \<Rightarrow> Inr v)"
| "getitem _ key = Inl TypeError"

text \<open>
  The whole expression. \<^verbatim>\<open>ast.literal_eval\<close> is Python's literal parser; it is
  the parameter \<open>literal_eval\<close>, so every result below holds whatever it returns.
\<close>

definition decode_consumables ::
  "(string \<Rightarrow> py_error + pyobj) \<Rightarrow> rawval \<Rightarrow> py_error + pyobj" where
  "decode_consumables literal_eval blob =
    (case b64decode blob of
       Inl err \<Rightarrow> Inl err
     | Inr bs \<Rightarrow>
        (case decode_ascii bs of
           Inl err \<Rightarrow> Inl err
         | Inr txt \<Rightarrow>
            (case literal_eval txt of
               Inl err \<Rightarrow> Inl err
             | Inr obj \<Rightarrow>
                (case getitem obj ''consumable'' of
                   Inl err \<Rightarrow> Inl err
                 | Inr c \<Rightarrow> getitem c ''duration''))))"

subsection \<open>Construction: the capability profile of a model\<close>

record config_item =
  CONF_MODEL :: string
  CONF_IP_ADDRESS :: string
  CONF_ACCESS_TOKEN :: string

definition C_series :: "string list" where
  "C_series = [''T2103'', ''T2117'', ''T2118'', ''T2119'', ''T2120'', ''T2123'', ''T2128'', ''T2130'']"

definition G_series :: "string list" where
  "G_series = [''T1250'', ''T2250'', ''T2251'', ''T2252'', ''T2253'', ''T2150'', ''T2255'']"

definition X_series :: "string list" where
  "X_series = [''T2262'', ''T2262A'', ''T2261'', ''T2261A'']"

definition base_features :: "VacuumEntityFeature set" where
  "base_features =
    {BATTERY, CLEAN_SPOT, FAN_SPEED, LOCATE, PAUSE, RETURN_HOME, SEND_COMMAND, START, STATE, STOP}"

text \<open>\<^verbatim>\<open>RoboVacEntity.__init__\<close>; \<^verbatim>\<open>model_code[0:5]\<close> is \<open>take 5\<close>.\<close>

definition init :: "config_item \<Rightarrow> entity" where
  "init item =
    (let prefix = take 5 (CONF_MODEL item);
         profile =
           (if prefix \<in> set C_series then
              ([''No Suction'', ''Standard'', ''Boost IQ'', ''Max''],
               EDGE OR SMALL_ROOM,
               base_features)
            else if prefix \<in> set G_series then
              ([''Standard'', ''Turbo'', ''Max'', ''Boost IQ''],
               CLEANING_TIME OR CLEANING_AREA OR DO_NOT_DISTURB OR AUTO_RETURN OR CONSUMABLES,
               base_features)
            else if prefix \<in> set X_series then
              ([''Pure'', ''Standard'', ''Turbo'', ''Max''],
               CLEANING_TIME OR CLEANING_AREA OR DO_NOT_DISTURB OR AUTO_RETURN OR CONSUMABLES
                 OR ROOM OR ZONE OR MAP OR BOOST_IQ,
               insert VMAP base_features)
            else ([''Standard''], 0, {}))
     in \<lparr> battery_level = RInt 0,
          supported_features = snd (snd profile),
          robovac_supported = fst (snd profile),
          fan_speed_list = fst profile,
          model_code = CONF_MODEL item,
          ip_address = CONF_IP_ADDRESS item,
          access_token = CONF_ACCESS_TOKEN item,
          fan_speed = RNone,
          mode = RNone,
          cleaning_area = RNone,
          cleaning_time = RNone,
          auto_return = RNone,
          do_not_disturb = RNone,
          boost_iq = RNone,
          consumables = Scalar RNone,
          error_code = RNone,
          tuya_state = RNone,
          tuyastatus = None \<rparr>)"

text \<open>The capability profile of an entity: what the constructor derives from the model.\<close>

definition profile :: "entity \<Rightarrow> string list \<times> int \<times> VacuumEntityFeature set" where
  "profile e = (fan_speed_list e, robovac_supported e, supported_features e)"

subsection \<open>Polling: \<^verbatim>\<open>async_update\<close>\<close>

text \<open>The read-side fan-speed aliases (the \<^verbatim>\<open>if/elif\<close> chain after the fetch).\<close>

definition read_fan_speed :: "rawval \<Rightarrow> rawval" where
  "read_fan_speed v =
    (if py_eq v (RStr ''No_suction'') then RStr ''No Suction''
     else if py_eq v (RStr ''Boost_IQ'') then RStr ''Boost IQ''
     else if py_eq v (RStr ''Quiet'') then RStr ''Pure''
     else v)"

text \<open>
  \<^verbatim>\<open>if self.tuyastatus.get(code) is not None: self._attr_consumables = ...\<close>
  for one of the two consumables codes. There is no exception handler: a decoding error
  leaves the method at once, with the assignments made so far in place. The result is the
  entity and the exception raised, if any.
\<close>

definition update_consumables ::
  "(string \<Rightarrow> py_error + pyobj) \<Rightarrow> string \<Rightarrow> snapshot \<Rightarrow> entity \<Rightarrow> entity \<times> py_error option" where
  "update_consumables literal_eval code st e =
    (if get st code \<noteq> RNone then
       (case decode_consumables literal_eval (get st code) of
          Inl err \<Rightarrow> (e, Some err)
        | Inr v \<Rightarrow> (e\<lparr>consumables := v\<rparr>, None))
     else (e, None))"

text \<open>
  \<^verbatim>\<open>async_update\<close>, given the snapshot \<open>st\<close> that the transport delivers
  (\<^verbatim>\<open>self.vacuum.state\<close> after \<^verbatim>\<open>async_get\<close>). Publishing the state to the
  host (\<^verbatim>\<open>async_write_ha_state\<close>) changes nothing in the entity; with an empty
  address the method returns before it fetches anything.
\<close>

definition async_update ::
  "(string \<Rightarrow> py_error + pyobj) \<Rightarrow> entity \<Rightarrow> snapshot \<Rightarrow> entity \<times> py_error option" where
  "async_update literal_eval e st =
    (if ip_address e = [] then (e, None)
     else
       let e1 = e\<lparr>tuyastatus := Some st,
                  battery_level := get st ''104'',
                  tuya_state := get st ''15'',
                  error_code := get st ''106'',
                  mode := get st ''5'',
                  fan_speed := read_fan_speed (get st ''102''),
                  cleaning_area := get st ''110'',
                  cleaning_time := get st ''109'',
                  auto_return := get st ''135'',
                  do_not_disturb := get st ''107''\<rparr>
       in case update_consumables literal_eval ''142'' st e1 of
            (e2, Some err) \<Rightarrow> (e2, Some err)
          | (e2, None) \<Rightarrow>
              update_consumables literal_eval ''116'' st (e2\<lparr>boost_iq := get st ''118''\<rparr>))"

subsection \<open>Presentation: \<^verbatim>\<open>extra_state_attributes\<close>\<close>

datatype attr_value = AVal rawval | AObj pyobj | AState vacuum_state

definition ATTR_ERROR :: string where "ATTR_ERROR = ''error''"
definition ATTR_BATTERY_LEVEL :: string where "ATTR_BATTERY_LEVEL = ''battery_level''"
definition ATTR_BATTERY_ICON :: string where "ATTR_BATTERY_ICON = ''battery_icon''"
definition ATTR_FAN_SPEED :: string where "ATTR_FAN_SPEED = ''fan_speed''"
definition ATTR_STATUS :: string where "ATTR_STATUS = ''status''"
definition ATTR_CLEANING_AREA :: string where "ATTR_CLEANING_AREA = ''cleaning_area''"
definition ATTR_CLEANING_TIME :: string where "ATTR_CLEANING_TIME = ''cleaning_time''"
definition ATTR_AUTO_RETURN :: string where "ATTR_AUTO_RETURN = ''auto_return''"
definition ATTR_DO_NOT_DISTURB :: string where "ATTR_DO_NOT_DISTURB = ''do_not_disturb''"
definition ATTR_BOOST_IQ :: string where "ATTR_BOOST_IQ = ''boost_iq''"
definition ATTR_CONSUMABLES :: string where "ATTR_CONSUMABLES = ''consumables''"
definition ATTR_MODE :: string where "ATTR_MODE = ''mode''"

text \<open>\<^verbatim>\<open>ERROR_MESSAGES.get(code, code)\<close>.\<close>

definition describe :: "rawval \<Rightarrow> rawval" where
  "describe code = dict_get ERROR_MESSAGES code code"

text \<open>One guarded assignment \<^verbatim>\<open>if cond: data[key] = value\<close>.\<close>

definition put_if ::
  "bool \<Rightarrow> string \<Rightarrow> attr_value \<Rightarrow> (string \<rightharpoonup> attr_value) \<Rightarrow> (string \<rightharpoonup> attr_value)" where
  "put_if cond key v data = (if cond then data(key \<mapsto> v) else data)"

text \<open>
  \<^verbatim>\<open>extra_state_attributes\<close>. The inherited property \<^verbatim>\<open>battery_icon\<close> is computed
  by the host framework and is the parameter \<open>battery_icon\<close>.
\<close>

definition extra_state_attributes :: "attr_value \<Rightarrow> entity \<Rightarrow> (string \<rightharpoonup> attr_value)" where
  "extra_state_attributes battery_icon e =
    (let data = Map.empty(ATTR_ERROR \<mapsto> AVal (describe (error_code e)));
         data = put_if (BATTERY \<in> supported_features e)
                  ATTR_BATTERY_LEVEL (AVal (battery_level e)) data;
         data = put_if (BATTERY \<in> supported_features e)
                  ATTR_BATTERY_ICON battery_icon data;
         data = put_if (FAN_SPEED \<in> supported_features e)
                  ATTR_FAN_SPEED (AVal (fan_speed e)) data;
         data = put_if (STATUS \<in> supported_features e)
                  ATTR_STATUS (AState (state e)) data;
         data = put_if (robovac_supported e AND CLEANING_AREA \<noteq> 0)
                  ATTR_CLEANING_AREA (AVal (cleaning_area e)) data;
         data = put_if (robovac_supported e AND CLEANING_TIME \<noteq> 0)
                  ATTR_CLEANING_TIME (AVal (cleaning_time e)) data;
         data = put_if (robovac_supported e AND AUTO_RETURN \<noteq> 0)
                  ATTR_AUTO_RETURN (AVal (auto_return e)) data;
         data = put_if (robovac_supported e AND DO_NOT_DISTURB \<noteq> 0)
                  ATTR_DO_NOT_DISTURB (AVal (do_not_disturb e)) data;
         data = put_if (robovac_supported e AND BOOST_IQ \<noteq> 0)
                  ATTR_BOOST_IQ (AVal (boost_iq e)) data;
         data = put_if (robovac_supported e AND CONSUMABLES \<noteq> 0)
                  ATTR_CONSUMABLES (AObj (consumables e)) data
     in data(ATTR_MODE \<mapsto> AVal (mode e)))"

subsection \<open>Commands\<close>

text \<open>
  One call \<^verbatim>\<open>self.vacuum.async_set(dps, None)\<close> sends the dict \<open>dps\<close> as one device
  write; a command's effect on the device is the list of the dicts it sends, in order.
  A command that ends with \<^verbatim>\<open>await self.async_update()\<close> polls the device again:
  \<open>st\<close> is the snapshot of that poll. The result is the dicts sent, the entity and the
  exception raised, if any.
\<close>

type_synonym dps = "(string \<times> rawval) list"
type_synonym outcome = "dps list \<times> entity \<times> py_error option"

definition then_update ::
  "(string \<Rightarrow> py_error + pyobj) \<Rightarrow> dps list \<Rightarrow> entity \<Rightarrow> snapshot \<Rightarrow> outcome" where
  "then_update literal_eval sent e st = (sent, async_update literal_eval e st)"

definition async_locate :: "entity \<Rightarrow> outcome" where
  "async_locate e =
    (case tuyastatus e of
       None \<Rightarrow> ([], e, Some AttributeError)
     | Some st \<Rightarrow>
         if truthy (get st ''103'') then ([[(''103'', RBool False)]], e, None)
         else ([[(''103'', RBool True)]], e, None))"

definition async_return_to_base ::
  "(string \<Rightarrow> py_error + pyobj) \<Rightarrow> entity \<Rightarrow> snapshot \<Rightarrow> outcome" where
  "async_return_to_base literal_eval e st =
    then_update literal_eval [[(''101'', RBool True)]] e st"

text \<open>
  \<^verbatim>\<open>async_start\<close>. \<^verbatim>\<open>self.status\<close> is not defined by this class: \<open>status\<close>
  is what reading it from the host's base class gives, a value or an exception. It is
  read only when the mode is \<^verbatim>\<open>"room"\<close>. The final \<^verbatim>\<open>self.async_update\<close>
  is not a call.
\<close>

definition async_start :: "py_error + rawval \<Rightarrow> entity \<Rightarrow> outcome" where
  "async_start status e =
    (if py_eq (mode e) (RStr ''Nosweep'') then
       ([[(''5'', RStr ''auto'')]], e\<lparr>mode := RStr ''auto''\<rparr>, None)
     else if py_eq (mode e) (RStr ''room'') then
       (case status of
          Inl err \<Rightarrow> ([], e, Some err)
        | Inr s \<Rightarrow>
            if py_eq s (RStr ''Charging'') \<or> py_eq s (RStr ''completed'') then
              ([[(''5'', RStr ''auto'')]], e\<lparr>mode := RStr ''auto''\<rparr>, None)
            else ([[(''5'', mode e)]], e, None))
     else ([[(''5'', mode e)]], e, None))"

definition async_pause :: "entity \<Rightarrow> outcome" where
  "async_pause e = ([[(''2'', RBool False)]], e, None)"

definition async_stop ::
  "(string \<Rightarrow> py_error + pyobj) \<Rightarrow> entity \<Rightarrow> snapshot \<Rightarrow> outcome" where
  "async_stop literal_eval e st = async_return_to_base literal_eval e st"

definition async_clean_spot ::
  "(string \<Rightarrow> py_error + pyobj) \<Rightarrow> entity \<Rightarrow> snapshot \<Rightarrow> outcome" where
  "async_clean_spot literal_eval e st =
    then_update literal_eval [[(''5'', RStr ''Spot'')]] e st"

text \<open>The write-side fan-speed aliases.\<close>

definition write_fan_speed :: "rawval \<Rightarrow> rawval" where
  "write_fan_speed v =
    (if py_eq v (RStr ''No Suction'') then RStr ''No_suction''
     else if py_eq v (RStr ''Boost IQ'') then RStr ''Boost_IQ''
     else if py_eq v (RStr ''Pure'') then RStr ''Quiet''
     else v)"

definition async_set_fan_speed ::
  "(string \<Rightarrow> py_error + pyobj) \<Rightarrow> entity \<Rightarrow> rawval \<Rightarrow> snapshot \<Rightarrow> outcome" where
  "async_set_fan_speed literal_eval e speed st =
    then_update literal_eval [[(''102'', write_fan_speed speed)]] e st"

text \<open>
  The writes of \<^verbatim>\<open>async_send_command\<close>, branch by branch. For \<^verbatim>\<open>roomClean\<close> the
  request blob (built from \<^verbatim>\<open>params\<close> and the clock, serialised and base64-encoded)
  is the parameter \<open>room_request\<close>, an exception when it cannot be built.
\<close>

definition command_writes :: "entity \<Rightarrow> string \<Rightarrow> py_error + string \<Rightarrow> py_error + dps list" where
  "command_writes e command room_request =
    (if command = ''edgeClean'' then Inr [[(''5'', RStr ''Edge'')]]
     else if command = ''smallRoomClean'' then Inr [[(''5'', RStr ''SmallRoom'')]]
     else if command = ''autoClean'' then Inr [[(''5'', RStr ''auto'')]]
     else if command = ''autoReturn'' then
       (if truthy (auto_return e) then Inr [[(''135'', RBool False)]]
        else Inr [[(''135'', RBool True)]])
     else if command = ''doNotDisturb'' then
       (if truthy (do_not_disturb e) then
          Inr [[(''139'', RStr ''MEQ4MDAwMDAw'')], [(''107'', RBool False)]]
        else Inr [[(''139'', RStr ''MTAwMDAwMDAw'')], [(''107'', RBool True)]])
     else if command = ''boostIQ'' then
       (if truthy (boost_iq e) then Inr [[(''118'', RBool False)]]
        else Inr [[(''118'', RBool True)]])
     else if command = ''roomClean'' then
       (case room_request of
          Inl err \<Rightarrow> Inl err
        | Inr blob \<Rightarrow> Inr [[(''124'', RStr blob)]])
     else Inr [])"

definition async_send_command ::
  "(string \<Rightarrow> py_error + pyobj) \<Rightarrow> entity \<Rightarrow> string \<Rightarrow> py_error + string \<Rightarrow> snapshot \<Rightarrow> outcome" where
  "async_send_command literal_eval e command room_request st =
    (case command_writes e command room_request of
       Inl err \<Rightarrow> ([], e, Some err)
     | Inr sent \<Rightarrow> then_update literal_eval sent e st)"

subsection \<open>Sample inputs\<close>

text \<open>
  Concrete inputs for the worked examples: a G-series device with an address, two
  well-formed consumables blobs (the base64 text of the records
  \<^verbatim>\<open>{"consumable":{"duration":5}}\<close> and \<^verbatim>\<open>{"consumable":{"duration":9}}\<close>),
  and the values of \<^verbatim>\<open>ast.literal_eval\<close> on these two records. The general
  results below hold for every \<open>literal_eval\<close>; \<open>sample_literal_eval\<close> only
  instantiates them, and is meant to be applied to these two texts alone.
\<close>

definition sample_item :: config_item where
  "sample_item =
    \<lparr> CONF_MODEL = ''T2250'', CONF_IP_ADDRESS = ''192.168.1.20'', CONF_ACCESS_TOKEN = ''localkey'' \<rparr>"

definition blob5 :: string where
  "blob5 = ''eyJjb25zdW1hYmxlIjp7ImR1cmF0aW9uIjo1fX0=''"

definition blob9 :: string where
  "blob9 = ''eyJjb25zdW1hYmxlIjp7ImR1cmF0aW9uIjo5fX0=''"

text \<open>\<open>blob5\<close> cut short by its last character.\<close>

definition truncated_blob :: string where
  "truncated_blob = ''eyJjb25zdW1hYmxlIjp7ImR1cmF0aW9uIjo1fX0''"

definition duration_record :: "int \<Rightarrow> pyobj" where
  "duration_record n =
    PDict [(Scalar (RStr ''consumable''), PDict [(Scalar (RStr ''duration''), Scalar (RInt n))])]"

definition sample_literal_eval :: "string \<Rightarrow> py_error + pyobj" where
  \<open>sample_literal_eval txt =
    (if txt = ''{"consumable":{"duration":5}}'' then Inr (duration_record 5)
     else if txt = ''{"consumable":{"duration":9}}'' then Inr (duration_record 9)
     else Inl SyntaxError)\<close>

section \<open>Properties\<close>

subsection \<open>Auxiliary facts\<close>

lemmas RoboVacEntityFeature_defs =
  EDGE_def SMALL_ROOM_def CLEANING_TIME_def CLEANING_AREA_def DO_NOT_DISTURB_def
  AUTO_RETURN_def CONSUMABLES_def ROOM_def ZONE_def MAP_def BOOST_IQ_def

lemma sample_ip: "ip_address (init sample_item) \<noteq> []"
  by (simp add: init_def sample_item_def Let_def)

lemma get_simps:
  "get (st(k \<mapsto> v)) k' = (if k' = k then v else get st k')"
  "get Map.empty k' = RNone"
  by (simp_all add: get_def)

lemma decode_blob5: "decode_consumables sample_literal_eval (RStr blob5) = Inr (Scalar (RInt 5))"
  by (simp add: decode_consumables_def blob5_def b64_value_def decode_ascii_def char_of_def
      bit_Suc_0_iff sample_literal_eval_def duration_record_def)

lemma decode_blob9: "decode_consumables sample_literal_eval (RStr blob9) = Inr (Scalar (RInt 9))"
  by (simp add: decode_consumables_def blob9_def b64_value_def decode_ascii_def char_of_def
      bit_Suc_0_iff sample_literal_eval_def duration_record_def)

lemma decode_truncated:
  "decode_consumables literal_eval (RStr truncated_blob) = Inl BinasciiError"
  by (simp add: decode_consumables_def truncated_blob_def b64_value_def)

subsection \<open>Lifecycle state\<close>

lemma state_priority_chain:
  "state e =
    (if tuya_state e = RNone \<or> \<not> py_in (error_code e) [RInt 0, RStr ''no_error'']
     then STATE_ERROR
     else if tuya_state e = RStr ''Charging'' \<or> tuya_state e = RStr ''completed''
     then STATE_DOCKED
     else if tuya_state e = RStr ''Recharge'' then STATE_RETURNING
     else if tuya_state e = RStr ''Sleeping'' \<or> tuya_state e = RStr ''standby''
     then STATE_IDLE
     else STATE_CLEANING)"
  by (cases "tuya_state e") (simp_all add: state_def type_is_not_None_def)

lemma absent_error_code_is_no_sentinel: "\<not> py_in RNone [RInt 0, RStr ''no_error'']"
  by (simp add: py_in_def)

text \<open>
  C1. The claim: the lifecycle state is ERROR when the raw state code is absent or an
  error code is present and is neither 0 nor "no_error"; otherwise it follows the raw
  state. The guard in the source is \<^verbatim>\<open>type(self.error_code) is not None\<close>, which
  holds for every value, so an absent error code is tested against the sentinels too and
  is not one of them. After a poll that reports the state "Charging" and no error code
  the computed state is ERROR, where the claim gives DOCKED.
\<close>

theorem state_charging_without_error_code:
  "state (fst (async_update literal_eval (init sample_item) [''15'' \<mapsto> RStr ''Charging'']))
     = STATE_ERROR"
  by (simp add: async_update_def update_consumables_def sample_ip get_simps Let_def
      state_def type_is_not_None_def py_in_def)

subsection \<open>Stop and return to base\<close>

text \<open>
  C10. For every current state, Stop is encoded exactly as ReturnToBase: one device
  write of \<open>True\<close> to code "101", and nothing else.
\<close>

theorem stop_is_return_to_base:
  "async_stop literal_eval e st = async_return_to_base literal_eval e st \<and>
   fst (async_stop literal_eval e st) = [[(''101'', RBool True)]] \<and>
   fst (async_return_to_base literal_eval e st) = [[(''101'', RBool True)]]"
  by (simp add: async_stop_def async_return_to_base_def then_update_def)

subsection \<open>The do-not-disturb toggle\<close>

text \<open>
  C3, as stated: the toggle emits its two writes in one atomic write set. The source
  calls \<^verbatim>\<open>async_set\<close> twice, each time with a dict of one entry, so the device
  receives two writes one after the other, not one write of two entries.
\<close>

theorem do_not_disturb_two_device_writes:
  "length (fst (async_send_command sample_literal_eval (init sample_item) ''doNotDisturb''
      (Inl AttributeError) Map.empty)) = 2"
  by (simp add: async_send_command_def command_writes_def then_update_def init_def Let_def)

text \<open>
  C3, amended: for both truth values of the current do-not-disturb flag the toggle sends
  exactly two device writes of one entry each, the schedule blob (code "139") first and
  the enable flag (code "107") second; the two directions are complementary (blob
  "MEQ4MDAwMDAw" with \<open>False\<close> when the flag is on, blob "MTAwMDAwMDAw" with \<open>True\<close>
  when it is off).
\<close>

theorem do_not_disturb_writes:
  "fst (async_send_command literal_eval e ''doNotDisturb'' room_request st) =
    (if truthy (do_not_disturb e)
     then [[(''139'', RStr ''MEQ4MDAwMDAw'')], [(''107'', RBool False)]]
     else [[(''139'', RStr ''MTAwMDAwMDAw'')], [(''107'', RBool True)]])"
  by (simp add: async_send_command_def command_writes_def then_update_def)

subsection \<open>Fan-speed aliases\<close>

lemma fan_speed_after_update:
  "ip_address e \<noteq> [] \<Longrightarrow>
   fan_speed (fst (async_update literal_eval e st)) = read_fan_speed (get st ''102'')"
  by (simp add: async_update_def update_consumables_def Let_def split: sum.splits)

lemma set_fan_speed_sent:
  "fst (async_set_fan_speed literal_eval e speed st0) = [[(''102'', write_fan_speed speed)]]"
  by (simp add: async_set_fan_speed_def then_update_def)

lemma read_back:
  "ip_address e \<noteq> [] \<Longrightarrow> st ''102'' = Some token \<Longrightarrow>
   fan_speed (fst (async_update literal_eval e st)) = read_fan_speed token"
  by (simp add: fan_speed_after_update get_def)

text \<open>
  C4. For each alias pair, setting the fan speed to the semantic label sends one device
  write of the pair's raw token to code "102" ("No Suction" as "No_suction", "Boost IQ"
  as "Boost_IQ", "Pure" as "Quiet"), and a poll of a snapshot that reports this token
  reads the same label back. On the table the two mappings are inverse to each other:
  reading after writing gives back each label, writing after reading each token.
\<close>

theorem fan_speed_alias_round_trip:
  "fst (async_set_fan_speed literal_eval e (RStr ''No Suction'') st0)
     = [[(''102'', RStr ''No_suction'')]] \<and>
   fst (async_set_fan_speed literal_eval e (RStr ''Boost IQ'') st0)
     = [[(''102'', RStr ''Boost_IQ'')]] \<and>
   fst (async_set_fan_speed literal_eval e (RStr ''Pure'') st0)
     = [[(''102'', RStr ''Quiet'')]] \<and>
   (ip_address e' \<noteq> [] \<and> st ''102'' = Some (RStr ''No_suction'') \<longrightarrow>
      fan_speed (fst (async_update literal_eval e' st)) = RStr ''No Suction'') \<and>
   (ip_address e' \<noteq> [] \<and> st ''102'' = Some (RStr ''Boost_IQ'') \<longrightarrow>
      fan_speed (fst (async_update literal_eval e' st)) = RStr ''Boost IQ'') \<and>
   (ip_address e' \<noteq> [] \<and> st ''102'' = Some (RStr ''Quiet'') \<longrightarrow>
      fan_speed (fst (async_update literal_eval e' st)) = RStr ''Pure'') \<and>
   map (read_fan_speed \<circ> write_fan_speed) [RStr ''No Suction'', RStr ''Boost IQ'', RStr ''Pure'']
     = [RStr ''No Suction'', RStr ''Boost IQ'', RStr ''Pure''] \<and>
   map (write_fan_speed \<circ> read_fan_speed) [RStr ''No_suction'', RStr ''Boost_IQ'', RStr ''Quiet'']
     = [RStr ''No_suction'', RStr ''Boost_IQ'', RStr ''Quiet'']"
proof -
  have sent:
    "fst (async_set_fan_speed literal_eval e (RStr ''No Suction'') st0)
       = [[(''102'', RStr ''No_suction'')]]"
    "fst (async_set_fan_speed literal_eval e (RStr ''Boost IQ'') st0)
       = [[(''102'', RStr ''Boost_IQ'')]]"
    "fst (async_set_fan_speed literal_eval e (RStr ''Pure'') st0)
       = [[(''102'', RStr ''Quiet'')]]"
    by (simp_all add: set_fan_speed_sent write_fan_speed_def)
  have readback:
    "ip_address e' \<noteq> [] \<and> st ''102'' = Some (RStr ''No_suction'') \<longrightarrow>
       fan_speed (fst (async_update literal_eval e' st)) = RStr ''No Suction''"
    "ip_address e' \<noteq> [] \<and> st ''102'' = Some (RStr ''Boost_IQ'') \<longrightarrow>
       fan_speed (fst (async_update literal_eval e' st)) = RStr ''Boost IQ''"
    "ip_address e' \<noteq> [] \<and> st ''102'' = Some (RStr ''Quiet'') \<longrightarrow>
       fan_speed (fst (async_update literal_eval e' st)) = RStr ''Pure''"
    by (auto simp: read_back read_fan_speed_def)
  have inverse:
    "map (read_fan_speed \<circ> write_fan_speed) [RStr ''No Suction'', RStr ''Boost IQ'', RStr ''Pure'']
       = [RStr ''No Suction'', RStr ''Boost IQ'', RStr ''Pure'']"
    "map (write_fan_speed \<circ> read_fan_speed) [RStr ''No_suction'', RStr ''Boost_IQ'', RStr ''Quiet'']
       = [RStr ''No_suction'', RStr ''Boost_IQ'', RStr ''Quiet'']"
    by (simp_all add: read_fan_speed_def write_fan_speed_def)
  from sent readback inverse show ?thesis
    by (intro conjI)
qed

theorem fan_speed_alias_round_trip_witness:
  "fan_speed (fst (async_update sample_literal_eval (init sample_item)
     [''102'' \<mapsto> RStr ''No_suction''])) = RStr ''No Suction'' \<and>
   fan_speed (fst (async_update sample_literal_eval (init sample_item)
     [''102'' \<mapsto> RStr ''Boost_IQ''])) = RStr ''Boost IQ'' \<and>
   fan_speed (fst (async_update sample_literal_eval (init sample_item)
     [''102'' \<mapsto> RStr ''Quiet''])) = RStr ''Pure''"
  using
    fan_speed_alias_round_trip [where e' = "init sample_item" and literal_eval = sample_literal_eval
      and st = "[''102'' \<mapsto> RStr ''No_suction'']"]
    fan_speed_alias_round_trip [where e' = "init sample_item" and literal_eval = sample_literal_eval
      and st = "[''102'' \<mapsto> RStr ''Boost_IQ'']"]
    fan_speed_alias_round_trip [where e' = "init sample_item" and literal_eval = sample_literal_eval
      and st = "[''102'' \<mapsto> RStr ''Quiet'']"]
  by (simp add: sample_ip)

subsection \<open>Start\<close>

lemma py_eq_RStr: "py_eq v (RStr s) = (v = RStr s)"
  by (cases v) auto

lemma start_nosweep:
  "mode e = RStr ''Nosweep'' \<Longrightarrow> fst (async_start status e) = [[(''5'', RStr ''auto'')]]"
  by (simp add: async_start_def)

lemma start_room:
  "mode e = RStr ''room'' \<Longrightarrow> status = Inr s \<Longrightarrow>
   fst (async_start status e) =
     (if s = RStr ''Charging'' \<or> s = RStr ''completed'' then [[(''5'', RStr ''auto'')]]
      else [[(''5'', RStr ''room'')]])"
  by (simp add: async_start_def py_eq_RStr)

lemma start_room_unreadable_status:
  "mode e = RStr ''room'' \<Longrightarrow> async_start (Inl err) e = ([], e, Some err)"
  by (simp add: async_start_def)

lemma start_other:
  "mode e \<noteq> RStr ''Nosweep'' \<Longrightarrow> mode e \<noteq> RStr ''room'' \<Longrightarrow>
   fst (async_start status e) = [[(''5'', mode e)]]"
  by (simp add: async_start_def py_eq_RStr)

text \<open>
  C5. The claim: Start writes the current mode to code "5" unchanged, except that
  "Nosweep" is written as "auto", and "room" is written as "auto" when the vacuum is
  docked and as "room" when it is cleaning. For the mode "room" the source tests
  \<^verbatim>\<open>self.status\<close>. The class defines the property \<^verbatim>\<open>state\<close> and the fields
  \<^verbatim>\<open>tuya_state\<close> and \<^verbatim>\<open>tuyastatus\<close>, but no \<^verbatim>\<open>status\<close>, so reading it raises
  \<^verbatim>\<open>AttributeError\<close> before anything is sent. After a poll that reports the mode
  "room", the state "Charging" and the error code 0, the lifecycle state is DOCKED and
  Start sends nothing and raises, where the claim has "auto" written to code "5"; the
  same happens after a poll that reports the state "Running" (lifecycle CLEANING), where
  the claim has "room" written.
\<close>

theorem start_room_writes_nothing:
  "state (fst (async_update literal_eval (init sample_item)
      [''5'' \<mapsto> RStr ''room'', ''15'' \<mapsto> RStr ''Charging'', ''106'' \<mapsto> RInt 0]))
     = STATE_DOCKED \<and>
   fst (async_start (Inl AttributeError) (fst (async_update literal_eval (init sample_item)
      [''5'' \<mapsto> RStr ''room'', ''15'' \<mapsto> RStr ''Charging'', ''106'' \<mapsto> RInt 0])))
     = [] \<and>
   snd (snd (async_start (Inl AttributeError) (fst (async_update literal_eval (init sample_item)
      [''5'' \<mapsto> RStr ''room'', ''15'' \<mapsto> RStr ''Charging'', ''106'' \<mapsto> RInt 0]))))
     = Some AttributeError \<and>
   state (fst (async_update literal_eval (init sample_item)
      [''5'' \<mapsto> RStr ''room'', ''15'' \<mapsto> RStr ''Running'', ''106'' \<mapsto> RInt 0]))
     = STATE_CLEANING \<and>
   fst (async_start (Inl AttributeError) (fst (async_update literal_eval (init sample_item)
      [''5'' \<mapsto> RStr ''room'', ''15'' \<mapsto> RStr ''Running'', ''106'' \<mapsto> RInt 0])))
     = []"
proof -
  have m: "mode (fst (async_update literal_eval (init sample_item)
      [''5'' \<mapsto> RStr ''room'', ''15'' \<mapsto> RStr s, ''106'' \<mapsto> RInt 0])) = RStr ''room''" for s
    by (simp add: async_update_def update_consumables_def sample_ip get_simps Let_def)
  have docked: "state (fst (async_update literal_eval (init sample_item)
      [''5'' \<mapsto> RStr ''room'', ''15'' \<mapsto> RStr ''Charging'', ''106'' \<mapsto> RInt 0]))
     = STATE_DOCKED"
    by (simp add: async_update_def update_consumables_def sample_ip get_simps Let_def
        state_def type_is_not_None_def py_in_def)
  have cleaning: "state (fst (async_update literal_eval (init sample_item)
      [''5'' \<mapsto> RStr ''room'', ''15'' \<mapsto> RStr ''Running'', ''106'' \<mapsto> RInt 0]))
     = STATE_CLEANING"
    by (simp add: async_update_def update_consumables_def sample_ip get_simps Let_def
        state_def type_is_not_None_def py_in_def)
  from docked cleaning show ?thesis
    by (simp add: start_room_unreadable_status [OF m])
qed

subsection \<open>Capability resolution\<close>

lemma profile_init:
  "profile (init item) =
    (let prefix = take 5 (CONF_MODEL item) in
     if prefix \<in> set C_series then
       ([''No Suction'', ''Standard'', ''Boost IQ'', ''Max''], EDGE OR SMALL_ROOM, base_features)
     else if prefix \<in> set G_series then
       ([''Standard'', ''Turbo'', ''Max'', ''Boost IQ''],
        CLEANING_TIME OR CLEANING_AREA OR DO_NOT_DISTURB OR AUTO_RETURN OR CONSUMABLES,
        base_features)
     else if prefix \<in> set X_series then
       ([''Pure'', ''Standard'', ''Turbo'', ''Max''],
        CLEANING_TIME OR CLEANING_AREA OR DO_NOT_DISTURB OR AUTO_RETURN OR CONSUMABLES
          OR ROOM OR ZONE OR MAP OR BOOST_IQ,
        insert VMAP base_features)
     else ([''Standard''], 0, {}))"
  by (simp add: profile_def init_def Let_def)

text \<open>
  C6. Resolution is a total function of the model identifier (the constructor computes
  a profile for every string, with no failing branch); two identifiers with the same
  five-character prefix get the same profile; and an identifier whose prefix is in none
  of the three family tables gets the minimal profile: fan speeds ["Standard"], no
  feature flag and no control-surface flag.
\<close>

theorem resolve_by_prefix:
  "(take 5 (CONF_MODEL a) = take 5 (CONF_MODEL b) \<longrightarrow> profile (init a) = profile (init b)) \<and>
   (take 5 (CONF_MODEL a) \<notin> set C_series \<union> set G_series \<union> set X_series \<longrightarrow>
      fan_speed_list (init a) = [''Standard''] \<and>
      robovac_supported (init a) = 0 \<and>
      supported_features (init a) = {})"
  using profile_init [of a] profile_init [of b]
  by (auto simp: Let_def profile_def)

theorem resolve_by_prefix_witness:
  "profile (init \<lparr>CONF_MODEL = ''T2250-EU'', CONF_IP_ADDRESS = [], CONF_ACCESS_TOKEN = ''k''\<rparr>)
     = profile (init sample_item) \<and>
   fan_speed_list (init \<lparr>CONF_MODEL = ''T9999'', CONF_IP_ADDRESS = [], CONF_ACCESS_TOKEN = ''k''\<rparr>)
     = [''Standard''] \<and>
   robovac_supported (init \<lparr>CONF_MODEL = ''T9999'', CONF_IP_ADDRESS = [], CONF_ACCESS_TOKEN = ''k''\<rparr>)
     = 0 \<and>
   supported_features (init \<lparr>CONF_MODEL = ''T9999'', CONF_IP_ADDRESS = [], CONF_ACCESS_TOKEN = ''k''\<rparr>)
     = {}"
  using
    resolve_by_prefix [of "\<lparr>CONF_MODEL = ''T2250-EU'', CONF_IP_ADDRESS = [], CONF_ACCESS_TOKEN = ''k''\<rparr>"
      sample_item]
    resolve_by_prefix [of "\<lparr>CONF_MODEL = ''T9999'', CONF_IP_ADDRESS = [], CONF_ACCESS_TOKEN = ''k''\<rparr>"
      sample_item]
  by (simp add: sample_item_def C_series_def G_series_def X_series_def)

subsection \<open>Error description\<close>

lemma dict_get_miss:
  "\<forall>k \<in> set (map fst table). \<not> py_eq k key \<Longrightarrow> dict_get table key dflt = dflt"
  by (induction table) auto

text \<open>
  C7. The description of an error code is defined for every code (the lookup has no
  failing case): each key of the table is mapped to its message, and a code equal to no
  key of the table is returned as it is.
\<close>

theorem describe_total:
  "map (describe \<circ> fst) ERROR_MESSAGES = map (RStr \<circ> snd) ERROR_MESSAGES \<and>
   ((\<forall>k \<in> set (map fst ERROR_MESSAGES). \<not> py_eq k code) \<longrightarrow> describe code = code)"
proof
  show "map (describe \<circ> fst) ERROR_MESSAGES = map (RStr \<circ> snd) ERROR_MESSAGES"
    by (simp add: describe_def ERROR_MESSAGES_def)
  show "(\<forall>k \<in> set (map fst ERROR_MESSAGES). \<not> py_eq k code) \<longrightarrow> describe code = code"
    unfolding describe_def using dict_get_miss by blast
qed

theorem describe_total_witness:
  "describe (RInt 10) = RInt 10 \<and> describe (RStr ''S7'') = RStr ''S7'' \<and>
   describe RNone = RNone \<and> describe (RInt 0) = RInt 0"
  using describe_total [of "RInt 10"] describe_total [of "RStr ''S7''"]
    describe_total [of RNone] describe_total [of "RInt 0"]
  by (simp add: ERROR_MESSAGES_def)

subsection \<open>Consumables and decoding failures\<close>

lemma uc_none:
  "get st code = RNone \<Longrightarrow> update_consumables lit code st e = (e, None)"
  by (simp add: update_consumables_def)

lemma uc_ok:
  "get st code \<noteq> RNone \<Longrightarrow> decode_consumables lit (get st code) = Inr v \<Longrightarrow>
   update_consumables lit code st e = (e\<lparr>consumables := v\<rparr>, None)"
  by (simp add: update_consumables_def)

lemma uc_err:
  "get st code \<noteq> RNone \<Longrightarrow> decode_consumables lit (get st code) = Inl err \<Longrightarrow>
   update_consumables lit code st e = (e, Some err)"
  by (simp add: update_consumables_def)

lemma update_no_blobs:
  "get st ''142'' = RNone \<Longrightarrow> get st ''116'' = RNone \<Longrightarrow>
   snd (async_update lit e st) = None \<and>
   consumables (fst (async_update lit e st)) = consumables e"
  by (simp add: async_update_def Let_def uc_none)

lemma update_first_fails:
  "ip_address e \<noteq> [] \<Longrightarrow> get st ''142'' \<noteq> RNone \<Longrightarrow>
   decode_consumables lit (get st ''142'') = Inl err \<Longrightarrow>
   snd (async_update lit e st) = Some err \<and>
   consumables (fst (async_update lit e st)) = consumables e"
  by (simp add: async_update_def Let_def uc_err)

lemma update_second_fails:
  "ip_address e \<noteq> [] \<Longrightarrow>
   get st ''142'' = RNone \<or> decode_consumables lit (get st ''142'') = Inr v \<Longrightarrow>
   get st ''116'' \<noteq> RNone \<Longrightarrow>
   decode_consumables lit (get st ''116'') = Inl err \<Longrightarrow>
   snd (async_update lit e st) = Some err"
  by (cases "get st ''142'' = RNone") (auto simp: async_update_def Let_def uc_err uc_ok uc_none)

lemma update_both:
  "ip_address e \<noteq> [] \<Longrightarrow> get st ''142'' \<noteq> RNone \<Longrightarrow> get st ''116'' \<noteq> RNone \<Longrightarrow>
   decode_consumables lit (get st ''142'') = Inr v1 \<Longrightarrow>
   decode_consumables lit (get st ''116'') = Inr v2 \<Longrightarrow>
   snd (async_update lit e st) = None \<and> consumables (fst (async_update lit e st)) = v2"
  by (simp add: async_update_def Let_def uc_ok)

lemma update_only_first:
  "ip_address e \<noteq> [] \<Longrightarrow> get st ''142'' \<noteq> RNone \<Longrightarrow> get st ''116'' = RNone \<Longrightarrow>
   decode_consumables lit (get st ''142'') = Inr v1 \<Longrightarrow>
   snd (async_update lit e st) = None \<and> consumables (fst (async_update lit e st)) = v1"
  by (simp add: async_update_def Let_def uc_ok uc_none)

lemma update_only_second:
  "ip_address e \<noteq> [] \<Longrightarrow> get st ''142'' = RNone \<Longrightarrow> get st ''116'' \<noteq> RNone \<Longrightarrow>
   decode_consumables lit (get st ''116'') = Inr v2 \<Longrightarrow>
   snd (async_update lit e st) = None \<and> consumables (fst (async_update lit e st)) = v2"
  by (simp add: async_update_def Let_def uc_ok uc_none)

lemma decode_stages:
  "(b64decode blob = Inl err \<longrightarrow> decode_consumables lit blob = Inl err) \<and>
   (b64decode blob = Inr bs \<and> decode_ascii bs = Inl err \<longrightarrow>
      decode_consumables lit blob = Inl err) \<and>
   (b64decode blob = Inr bs \<and> decode_ascii bs = Inr tx \<and> lit tx = Inl err \<longrightarrow>
      decode_consumables lit blob = Inl err) \<and>
   (b64decode blob = Inr bs \<and> decode_ascii bs = Inr tx \<and> lit tx = Inr obj \<and>
    getitem obj ''consumable'' = Inl err \<longrightarrow> decode_consumables lit blob = Inl err) \<and>
   (b64decode blob = Inr bs \<and> decode_ascii bs = Inr tx \<and> lit tx = Inr obj \<and>
    getitem obj ''consumable'' = Inr c \<longrightarrow>
      decode_consumables lit blob = getitem c ''duration'')"
  by (simp add: decode_consumables_def)

text \<open>
  C2, as stated: interpreting a snapshot never raises, and a truncated consumables blob
  leaves the field absent. The source decodes the blob with no exception handler: a poll
  of a snapshot whose code "142" holds the sample blob cut short by one character ends
  with the base64 decoder's exception.
\<close>

theorem truncated_blob_raises:
  "snd (async_update sample_literal_eval (init sample_item)
     [''142'' \<mapsto> RStr ''eyJjb25zdW1hYmxlIjp7ImR1cmF0aW9uIjo1fX0'']) = Some BinasciiError"
  using update_first_fails [OF sample_ip, of "[''142'' \<mapsto> RStr truncated_blob]"
      sample_literal_eval BinasciiError]
  by (simp add: get_simps decode_truncated) (simp add: truncated_blob_def)

text \<open>
  C2, amended: interpreting a snapshot raises nothing when neither consumables code
  ("142", "116") holds a value, whatever the other codes hold, and the consumables field
  is then left as it was. When a consumables code holds a value whose decoding fails, at
  whichever stage (base64, ASCII text, literal parsing, or the lookup of "consumable" and
  "duration"), that exception leaves the poll and reaches the caller; a failure on code
  "142" leaves the consumables field as it was.
\<close>

theorem update_raises_when_decoding_fails:
  "(get st ''142'' = RNone \<and> get st ''116'' = RNone \<longrightarrow>
      snd (async_update lit e st) = None \<and>
      consumables (fst (async_update lit e st)) = consumables e) \<and>
   (ip_address e \<noteq> [] \<and> get st ''142'' \<noteq> RNone \<and>
    decode_consumables lit (get st ''142'') = Inl err \<longrightarrow>
      snd (async_update lit e st) = Some err \<and>
      consumables (fst (async_update lit e st)) = consumables e) \<and>
   (ip_address e \<noteq> [] \<and>
    (get st ''142'' = RNone \<or> decode_consumables lit (get st ''142'') = Inr v) \<and>
    get st ''116'' \<noteq> RNone \<and> decode_consumables lit (get st ''116'') = Inl err \<longrightarrow>
      snd (async_update lit e st) = Some err) \<and>
   (b64decode blob = Inl err \<longrightarrow> decode_consumables lit blob = Inl err) \<and>
   (b64decode blob = Inr bs \<and> decode_ascii bs = Inl err \<longrightarrow>
      decode_consumables lit blob = Inl err) \<and>
   (b64decode blob = Inr bs \<and> decode_ascii bs = Inr tx \<and> lit tx = Inl err \<longrightarrow>
      decode_consumables lit blob = Inl err) \<and>
   (b64decode blob = Inr bs \<and> decode_ascii bs = Inr tx \<and> lit tx = Inr obj \<and>
    getitem obj ''consumable'' = Inl err \<longrightarrow> decode_consumables lit blob = Inl err) \<and>
   (b64decode blob = Inr bs \<and> decode_ascii bs = Inr tx \<and> lit tx = Inr obj \<and>
    getitem obj ''consumable'' = Inr c \<and> getitem c ''duration'' = Inl err \<longrightarrow>
      decode_consumables lit blob = Inl err)"
proof -
  have a: "get st ''142'' = RNone \<and> get st ''116'' = RNone \<longrightarrow>
      snd (async_update lit e st) = None \<and>
      consumables (fst (async_update lit e st)) = consumables e"
    using update_no_blobs by blast
  have b: "ip_address e \<noteq> [] \<and> get st ''142'' \<noteq> RNone \<and>
    decode_consumables lit (get st ''142'') = Inl err \<longrightarrow>
      snd (async_update lit e st) = Some err \<and>
      consumables (fst (async_update lit e st)) = consumables e"
    using update_first_fails by blast
  have c: "ip_address e \<noteq> [] \<and>
    (get st ''142'' = RNone \<or> decode_consumables lit (get st ''142'') = Inr v) \<and>
    get st ''116'' \<noteq> RNone \<and> decode_consumables lit (get st ''116'') = Inl err \<longrightarrow>
      snd (async_update lit e st) = Some err"
    using update_second_fails by blast
  from a b c decode_stages [of blob err lit bs tx obj c] show ?thesis
    by simp
qed

theorem update_raises_when_decoding_fails_witness:
  "snd (async_update sample_literal_eval (init sample_item) [''104'' \<mapsto> RStr ''full'']) = None \<and>
   snd (async_update sample_literal_eval (init sample_item) [''142'' \<mapsto> RStr ''gA=='']) =
     Some UnicodeDecodeError \<and>
   snd (async_update sample_literal_eval (init sample_item) [''116'' \<mapsto> RInt 5]) =
     Some TypeError"
  using
    update_raises_when_decoding_fails [of "[''104'' \<mapsto> RStr ''full'']" sample_literal_eval
      "init sample_item"]
    update_raises_when_decoding_fails [of "[''142'' \<mapsto> RStr ''gA=='']" sample_literal_eval
      "init sample_item" UnicodeDecodeError _ "RStr ''gA==''" "[128]"]
    update_raises_when_decoding_fails [of "[''116'' \<mapsto> RInt 5]" sample_literal_eval
      "init sample_item" TypeError _ "RInt 5"]
  by (simp add: get_simps sample_ip b64_value_def decode_ascii_def)

text \<open>
  C8. When both consumables codes hold decodable blobs, the wear value after the poll is
  the one decoded from code "116", which is checked last; when only one of the two codes
  holds a value, the wear value is decoded from that code.
\<close>

theorem consumables_later_code_wins:
  "(ip_address e \<noteq> [] \<and> get st ''142'' \<noteq> RNone \<and> get st ''116'' \<noteq> RNone \<and>
    decode_consumables lit (get st ''142'') = Inr v1 \<and>
    decode_consumables lit (get st ''116'') = Inr v2 \<longrightarrow>
      snd (async_update lit e st) = None \<and> consumables (fst (async_update lit e st)) = v2) \<and>
   (ip_address e \<noteq> [] \<and> get st ''142'' \<noteq> RNone \<and> get st ''116'' = RNone \<and>
    decode_consumables lit (get st ''142'') = Inr v1 \<longrightarrow>
      snd (async_update lit e st) = None \<and> consumables (fst (async_update lit e st)) = v1) \<and>
   (ip_address e \<noteq> [] \<and> get st ''142'' = RNone \<and> get st ''116'' \<noteq> RNone \<and>
    decode_consumables lit (get st ''116'') = Inr v2 \<longrightarrow>
      snd (async_update lit e st) = None \<and> consumables (fst (async_update lit e st)) = v2)"
  using update_both [of e st lit v1 v2] update_only_first [of e st lit v1]
    update_only_second [of e st lit v2]
  by blast

theorem consumables_later_code_wins_witness:
  "consumables (fst (async_update sample_literal_eval (init sample_item)
     [''142'' \<mapsto> RStr blob5, ''116'' \<mapsto> RStr blob9])) = Scalar (RInt 9) \<and>
   consumables (fst (async_update sample_literal_eval (init sample_item)
     [''142'' \<mapsto> RStr blob5])) = Scalar (RInt 5) \<and>
   consumables (fst (async_update sample_literal_eval (init sample_item)
     [''116'' \<mapsto> RStr blob9])) = Scalar (RInt 9)"
  using
    consumables_later_code_wins [of "init sample_item"
      "[''142'' \<mapsto> RStr blob5, ''116'' \<mapsto> RStr blob9]" sample_literal_eval
      "Scalar (RInt 5)" "Scalar (RInt 9)"]
    consumables_later_code_wins [of "init sample_item"
      "[''142'' \<mapsto> RStr blob5]" sample_literal_eval "Scalar (RInt 5)" "Scalar (RInt 9)"]
    consumables_later_code_wins [of "init sample_item"
      "[''116'' \<mapsto> RStr blob9]" sample_literal_eval "Scalar (RInt 5)" "Scalar (RInt 9)"]
  by (simp add: get_simps sample_ip decode_blob5 decode_blob9)

subsection \<open>Interpretation and presentation\<close>

lemma poll_fields:
  "ip_address e \<noteq> [] \<Longrightarrow>
   battery_level (fst (async_update lit e st)) = get st ''104'' \<and>
   tuya_state (fst (async_update lit e st)) = get st ''15'' \<and>
   error_code (fst (async_update lit e st)) = get st ''106'' \<and>
   mode (fst (async_update lit e st)) = get st ''5'' \<and>
   fan_speed (fst (async_update lit e st)) = read_fan_speed (get st ''102'') \<and>
   cleaning_area (fst (async_update lit e st)) = get st ''110'' \<and>
   cleaning_time (fst (async_update lit e st)) = get st ''109'' \<and>
   auto_return (fst (async_update lit e st)) = get st ''135'' \<and>
   do_not_disturb (fst (async_update lit e st)) = get st ''107''"
  by (simp add: async_update_def update_consumables_def Let_def split: sum.splits)

lemma poll_boost_iq:
  "ip_address e \<noteq> [] \<Longrightarrow>
   get st ''142'' = RNone \<or> decode_consumables lit (get st ''142'') = Inr v \<Longrightarrow>
   boost_iq (fst (async_update lit e st)) = get st ''118''"
  by (auto simp: async_update_def update_consumables_def Let_def split: sum.splits)

lemma poll_boost_iq_skipped:
  "ip_address e \<noteq> [] \<Longrightarrow> get st ''142'' \<noteq> RNone \<Longrightarrow>
   decode_consumables lit (get st ''142'') = Inl err \<Longrightarrow>
   boost_iq (fst (async_update lit e st)) = boost_iq e"
  by (simp add: async_update_def Let_def uc_err)

lemma poll_consumables:
  assumes "ip_address e \<noteq> []" and "snd (async_update lit e st) = None"
  shows "get st ''116'' \<noteq> RNone \<Longrightarrow>
           decode_consumables lit (get st ''116'') = Inr (consumables (fst (async_update lit e st)))"
    and "get st ''116'' = RNone \<Longrightarrow> get st ''142'' \<noteq> RNone \<Longrightarrow>
           decode_consumables lit (get st ''142'') = Inr (consumables (fst (async_update lit e st)))"
    and "get st ''116'' = RNone \<Longrightarrow> get st ''142'' = RNone \<Longrightarrow>
           consumables (fst (async_update lit e st)) = consumables e"
  using assms
  by (auto simp: async_update_def update_consumables_def Let_def split: sum.splits if_splits)

lemma poll_profile_independent:
  "async_update lit (e\<lparr>robovac_supported := r, supported_features := f, fan_speed_list := l\<rparr>) st =
   (case async_update lit e st of
      (e', x) \<Rightarrow> (e'\<lparr>robovac_supported := r, supported_features := f, fan_speed_list := l\<rparr>, x))"
  by (simp add: async_update_def update_consumables_def Let_def split: sum.splits)

lemmas ATTR_defs = ATTR_ERROR_def ATTR_BATTERY_LEVEL_def ATTR_BATTERY_ICON_def ATTR_FAN_SPEED_def
  ATTR_STATUS_def ATTR_CLEANING_AREA_def ATTR_CLEANING_TIME_def ATTR_AUTO_RETURN_def
  ATTR_DO_NOT_DISTURB_def ATTR_BOOST_IQ_def ATTR_CONSUMABLES_def ATTR_MODE_def

lemma attributes_gated:
  "extra_state_attributes icon e ATTR_CLEANING_AREA =
     (if robovac_supported e AND CLEANING_AREA \<noteq> 0 then Some (AVal (cleaning_area e)) else None)"
  "extra_state_attributes icon e ATTR_CLEANING_TIME =
     (if robovac_supported e AND CLEANING_TIME \<noteq> 0 then Some (AVal (cleaning_time e)) else None)"
  "extra_state_attributes icon e ATTR_AUTO_RETURN =
     (if robovac_supported e AND AUTO_RETURN \<noteq> 0 then Some (AVal (auto_return e)) else None)"
  "extra_state_attributes icon e ATTR_DO_NOT_DISTURB =
     (if robovac_supported e AND DO_NOT_DISTURB \<noteq> 0 then Some (AVal (do_not_disturb e)) else None)"
  "extra_state_attributes icon e ATTR_BOOST_IQ =
     (if robovac_supported e AND BOOST_IQ \<noteq> 0 then Some (AVal (boost_iq e)) else None)"
  "extra_state_attributes icon e ATTR_CONSUMABLES =
     (if robovac_supported e AND CONSUMABLES \<noteq> 0 then Some (AObj (consumables e)) else None)"
  "extra_state_attributes icon e ATTR_ERROR = Some (AVal (describe (error_code e)))"
  "extra_state_attributes icon e ATTR_MODE = Some (AVal (mode e))"
  by (simp_all add: extra_state_attributes_def put_if_def Let_def ATTR_defs)

text \<open>
  C9, as stated: interpretation populates every semantic field that is present in the
  raw snapshot. The boost-IQ field is assigned after the blob of code "142" is decoded,
  and a decoding error leaves the poll at once: with the sample blob cut short on code
  "142" and \<open>True\<close> on code "118", the boost-IQ field is still \<^verbatim>\<open>None\<close> after the
  poll.
\<close>

theorem corrupt_blob_leaves_boost_iq_unpopulated:
  "boost_iq (fst (async_update sample_literal_eval (init sample_item)
     [''142'' \<mapsto> RStr ''eyJjb25zdW1hYmxlIjp7ImR1cmF0aW9uIjo1fX0'', ''118'' \<mapsto> RBool True]))
     = RNone"
  using poll_boost_iq_skipped [OF sample_ip,
      of "[''142'' \<mapsto> RStr truncated_blob, ''118'' \<mapsto> RBool True]" sample_literal_eval
      BinasciiError]
  by (simp add: get_simps decode_truncated) (simp add: truncated_blob_def init_def Let_def)

text \<open>
  C9, amended: a poll of an entity that has an address copies battery level, raw state,
  error code, mode, fan speed (through the read-side aliases), cleaning area, cleaning
  time, auto-return and do-not-disturb from the raw snapshot, whatever the capability
  profile is and whether or not the poll raises. Boost-IQ is copied too unless code
  "142" holds a blob whose decoding raises, in which case it keeps its former value.
  When the poll raises nothing, the consumables value is the one decoded from code "116"
  if that code holds a value, else the one decoded from code "142" if that code holds a
  value, else the former one. The profile is never consulted: a poll of an entity with
  another profile gives the same fields and the same outcome. Gating happens in the
  attribute map only: each of the six extended attributes (cleaning area, cleaning time,
  auto-return, do-not-disturb, boost-IQ, consumables) is in the map, with the entity's
  field as its value, exactly when its feature flag is set in the profile, while the
  error and the mode are in the map for every profile.
\<close>

theorem attributes_gated_at_presentation:
  "(ip_address e \<noteq> [] \<longrightarrow>
      battery_level (fst (async_update lit e st)) = get st ''104'' \<and>
      tuya_state (fst (async_update lit e st)) = get st ''15'' \<and>
      error_code (fst (async_update lit e st)) = get st ''106'' \<and>
      mode (fst (async_update lit e st)) = get st ''5'' \<and>
      fan_speed (fst (async_update lit e st)) = read_fan_speed (get st ''102'') \<and>
      cleaning_area (fst (async_update lit e st)) = get st ''110'' \<and>
      cleaning_time (fst (async_update lit e st)) = get st ''109'' \<and>
      auto_return (fst (async_update lit e st)) = get st ''135'' \<and>
      do_not_disturb (fst (async_update lit e st)) = get st ''107'') \<and>
   (ip_address e \<noteq> [] \<and>
    (get st ''142'' = RNone \<or> decode_consumables lit (get st ''142'') = Inr v) \<longrightarrow>
      boost_iq (fst (async_update lit e st)) = get st ''118'') \<and>
   (ip_address e \<noteq> [] \<and> get st ''142'' \<noteq> RNone \<and>
    decode_consumables lit (get st ''142'') = Inl err \<longrightarrow>
      boost_iq (fst (async_update lit e st)) = boost_iq e) \<and>
   (ip_address e \<noteq> [] \<and> snd (async_update lit e st) = None \<and> get st ''116'' \<noteq> RNone \<longrightarrow>
      decode_consumables lit (get st ''116'') =
        Inr (consumables (fst (async_update lit e st)))) \<and>
   (ip_address e \<noteq> [] \<and> snd (async_update lit e st) = None \<and> get st ''116'' = RNone \<and>
    get st ''142'' \<noteq> RNone \<longrightarrow>
      decode_consumables lit (get st ''142'') =
        Inr (consumables (fst (async_update lit e st)))) \<and>
   (ip_address e \<noteq> [] \<and> snd (async_update lit e st) = None \<and> get st ''116'' = RNone \<and>
    get st ''142'' = RNone \<longrightarrow>
      consumables (fst (async_update lit e st)) = consumables e) \<and>
   async_update lit (e\<lparr>robovac_supported := r, supported_features := f, fan_speed_list := l\<rparr>) st =
     (case async_update lit e st of
        (e', x) \<Rightarrow> (e'\<lparr>robovac_supported := r, supported_features := f, fan_speed_list := l\<rparr>, x)) \<and>
   extra_state_attributes icon e ATTR_CLEANING_AREA =
     (if robovac_supported e AND CLEANING_AREA \<noteq> 0 then Some (AVal (cleaning_area e)) else None) \<and>
   extra_state_attributes icon e ATTR_CLEANING_TIME =
     (if robovac_supported e AND CLEANING_TIME \<noteq> 0 then Some (AVal (cleaning_time e)) else None) \<and>
   extra_state_attributes icon e ATTR_AUTO_RETURN =
     (if robovac_supported e AND AUTO_RETURN \<noteq> 0 then Some (AVal (auto_return e)) else None) \<and>
   extra_state_attributes icon e ATTR_DO_NOT_DISTURB =
     (if robovac_supported e AND DO_NOT_DISTURB \<noteq> 0 then Some (AVal (do_not_disturb e))
      else None) \<and>
   extra_state_attributes icon e ATTR_BOOST_IQ =
     (if robovac_supported e AND BOOST_IQ \<noteq> 0 then Some (AVal (boost_iq e)) else None) \<and>
   extra_state_attributes icon e ATTR_CONSUMABLES =
     (if robovac_supported e AND CONSUMABLES \<noteq> 0 then Some (AObj (consumables e)) else None) \<and>
   extra_state_attributes icon e ATTR_ERROR = Some (AVal (describe (error_code e))) \<and>
   extra_state_attributes icon e ATTR_MODE = Some (AVal (mode e))"
proof -
  have fields: "ip_address e \<noteq> [] \<longrightarrow>
      battery_level (fst (async_update lit e st)) = get st ''104'' \<and>
      tuya_state (fst (async_update lit e st)) = get st ''15'' \<and>
      error_code (fst (async_update lit e st)) = get st ''106'' \<and>
      mode (fst (async_update lit e st)) = get st ''5'' \<and>
      fan_speed (fst (async_update lit e st)) = read_fan_speed (get st ''102'') \<and>
      cleaning_area (fst (async_update lit e st)) = get st ''110'' \<and>
      cleaning_time (fst (async_update lit e st)) = get st ''109'' \<and>
      auto_return (fst (async_update lit e st)) = get st ''135'' \<and>
      do_not_disturb (fst (async_update lit e st)) = get st ''107''"
    using poll_fields [of e lit st] by blast
  have boost: "ip_address e \<noteq> [] \<and>
    (get st ''142'' = RNone \<or> decode_consumables lit (get st ''142'') = Inr v) \<longrightarrow>
      boost_iq (fst (async_update lit e st)) = get st ''118''"
    using poll_boost_iq [of e st lit v] by blast
  have skipped: "ip_address e \<noteq> [] \<and> get st ''142'' \<noteq> RNone \<and>
    decode_consumables lit (get st ''142'') = Inl err \<longrightarrow>
      boost_iq (fst (async_update lit e st)) = boost_iq e"
    using poll_boost_iq_skipped [of e st lit err] by blast
  have wear:
    "ip_address e \<noteq> [] \<and> snd (async_update lit e st) = None \<and> get st ''116'' \<noteq> RNone \<longrightarrow>
      decode_consumables lit (get st ''116'') =
        Inr (consumables (fst (async_update lit e st)))"
    "ip_address e \<noteq> [] \<and> snd (async_update lit e st) = None \<and> get st ''116'' = RNone \<and>
     get st ''142'' \<noteq> RNone \<longrightarrow>
      decode_consumables lit (get st ''142'') =
        Inr (consumables (fst (async_update lit e st)))"
    "ip_address e \<noteq> [] \<and> snd (async_update lit e st) = None \<and> get st ''116'' = RNone \<and>
     get st ''142'' = RNone \<longrightarrow>
      consumables (fst (async_update lit e st)) = consumables e"
    using poll_consumables [of e lit st] by blast+
  note gate = attributes_gated [of icon e]
  from fields boost skipped wear poll_profile_independent [where lit = lit and e = e and st = st]
    gate
  show ?thesis
    by (intro conjI)
qed

theorem attributes_gated_at_presentation_witness:
  "battery_level (fst (async_update sample_literal_eval (init sample_item)
     [''104'' \<mapsto> RInt 80, ''15'' \<mapsto> RStr ''Running'', ''102'' \<mapsto> RStr ''Quiet'',
      ''110'' \<mapsto> RInt 12, ''118'' \<mapsto> RBool True, ''116'' \<mapsto> RStr blob9])) = RInt 80 \<and>
   tuya_state (fst (async_update sample_literal_eval (init sample_item)
     [''104'' \<mapsto> RInt 80, ''15'' \<mapsto> RStr ''Running'', ''102'' \<mapsto> RStr ''Quiet'',
      ''110'' \<mapsto> RInt 12, ''118'' \<mapsto> RBool True, ''116'' \<mapsto> RStr blob9])) = RStr ''Running'' \<and>
   fan_speed (fst (async_update sample_literal_eval (init sample_item)
     [''104'' \<mapsto> RInt 80, ''15'' \<mapsto> RStr ''Running'', ''102'' \<mapsto> RStr ''Quiet'',
      ''110'' \<mapsto> RInt 12, ''118'' \<mapsto> RBool True, ''116'' \<mapsto> RStr blob9])) = RStr ''Pure'' \<and>
   boost_iq (fst (async_update sample_literal_eval (init sample_item)
     [''104'' \<mapsto> RInt 80, ''15'' \<mapsto> RStr ''Running'', ''102'' \<mapsto> RStr ''Quiet'',
      ''110'' \<mapsto> RInt 12, ''118'' \<mapsto> RBool True, ''116'' \<mapsto> RStr blob9])) = RBool True \<and>
   consumables (fst (async_update sample_literal_eval (init sample_item)
     [''104'' \<mapsto> RInt 80, ''15'' \<mapsto> RStr ''Running'', ''102'' \<mapsto> RStr ''Quiet'',
      ''110'' \<mapsto> RInt 12, ''118'' \<mapsto> RBool True, ''116'' \<mapsto> RStr blob9])) = Scalar (RInt 9) \<and>
   extra_state_attributes (AVal (RStr ''mdi:battery''))
     (fst (async_update sample_literal_eval (init sample_item)
        [''104'' \<mapsto> RInt 80, ''15'' \<mapsto> RStr ''Running'', ''102'' \<mapsto> RStr ''Quiet'',
         ''110'' \<mapsto> RInt 12, ''118'' \<mapsto> RBool True, ''116'' \<mapsto> RStr blob9])) ATTR_BOOST_IQ
     = None \<and>
   extra_state_attributes (AVal (RStr ''mdi:battery''))
     (fst (async_update sample_literal_eval (init sample_item)
        [''104'' \<mapsto> RInt 80, ''15'' \<mapsto> RStr ''Running'', ''102'' \<mapsto> RStr ''Quiet'',
         ''110'' \<mapsto> RInt 12, ''118'' \<mapsto> RBool True, ''116'' \<mapsto> RStr blob9])) ATTR_CLEANING_AREA
     = Some (AVal (RInt 12)) \<and>
   extra_state_attributes (AVal (RStr ''mdi:battery''))
     (fst (async_update sample_literal_eval (init sample_item)
        [''104'' \<mapsto> RInt 80, ''15'' \<mapsto> RStr ''Running'', ''102'' \<mapsto> RStr ''Quiet'',
         ''110'' \<mapsto> RInt 12, ''118'' \<mapsto> RBool True, ''116'' \<mapsto> RStr blob9])) ATTR_CONSUMABLES
     = Some (AObj (Scalar (RInt 9)))"
proof -
  let ?st = "[''104'' \<mapsto> RInt 80, ''15'' \<mapsto> RStr ''Running'', ''102'' \<mapsto> RStr ''Quiet'',
      ''110'' \<mapsto> RInt 12, ''118'' \<mapsto> RBool True, ''116'' \<mapsto> RStr blob9]"
  let ?e = "fst (async_update sample_literal_eval (init sample_item) ?st)"
  have ok: "snd (async_update sample_literal_eval (init sample_item) ?st) = None"
    using update_only_second [OF sample_ip, of ?st sample_literal_eval "Scalar (RInt 9)"]
    by (simp add: get_simps decode_blob9)
  have flags: "robovac_supported ?e = 124"
    by (simp add: async_update_def update_consumables_def Let_def get_simps sample_ip
          decode_blob9)
       (simp add: init_def sample_item_def C_series_def G_series_def Let_def
          RoboVacEntityFeature_defs)
  from attributes_gated_at_presentation
      [where e = "init sample_item" and lit = sample_literal_eval and st = ?st]
    attributes_gated_at_presentation [where e = ?e and icon = "AVal (RStr ''mdi:battery'')"]
  show ?thesis
    using ok flags
    by (simp add: sample_ip get_simps decode_blob9 read_fan_speed_def RoboVacEntityFeature_defs)
qed

end
